theory Spec2Isabelle
  imports Main "HOL-Library.Sublist"
begin

section \<open>Data model\<close>

text \<open>
  The service of \<^verbatim>\<open>main.py\<close> keeps one table, \<^verbatim>\<open>todos\<close>, in an SQLite file
  (\<^verbatim>\<open>database.py\<close>) and exposes five handlers over it. The handlers are embedded as
  functions that take the table and return their result together with the table as it
  is after the request.

  Python values that travel through \<^verbatim>\<open>dict()\<close> and \<^verbatim>\<open>setattr\<close> are dynamically
  typed; \<open>pyval\<close> holds the ones that occur. Ids are Python integers (\<open>int\<close>), and the
  id in a path is any of them.

  The table is taken to exist. (\<^verbatim>\<open>create_all\<close> at the top of \<^verbatim>\<open>main.py\<close> runs before
  \<^verbatim>\<open>ToDoDB\<close> is declared, so on a fresh file it creates nothing.) What the response
  model does to a returned row is not part of the handlers and is not modelled.
\<close>

datatype pyval = PNone | PStr string | PBool bool | PInt int

text \<open>
  The JSON body of a POST or PUT request, as far as the schema reads it: each of the
  three keys is either absent (\<open>None\<close>; for \<^verbatim>\<open>description\<close> also an explicit null) or
  present with a value of the declared type.
\<close>

record payload =
  title :: "string option"
  description :: "string option"
  completed :: "bool option"

text \<open>
  \<^verbatim>\<open>class ToDoSchema(BaseModel)\<close>: \<^verbatim>\<open>title: str\<close>, \<^verbatim>\<open>description: str = None\<close>,
  \<^verbatim>\<open>completed: bool = False\<close>. A value of this record is a validated model.
\<close>

record ToDoSchema =
  title :: string
  description :: "string option"
  completed :: bool

text \<open>
  \<^verbatim>\<open>class ToDoDB(Base)\<close>: one row of \<^verbatim>\<open>todos\<close>. The column \<^verbatim>\<open>id\<close> is the integer primary
  key (field \<open>id_pk\<close>, as \<open>id\<close> is the identity function of HOL); the other three
  columns are nullable and hold whatever value was assigned to the attribute.
\<close>

record ToDoDB =
  id_pk :: int
  title :: pyval
  description :: pyval
  completed :: pyval

type_synonym table = "ToDoDB list"

text \<open>
  What ends a request without a result: \<^verbatim>\<open>HTTPException(status_code, detail)\<close> raised by
  a handler; the rejection of a body that does not fit \<^verbatim>\<open>ToDoSchema\<close>, which happens
  before the handler runs; and \<^verbatim>\<open>OverflowError\<close> raised by the SQLite driver inside a
  query, which no handler catches (the client sees status 500).
\<close>

datatype error = HTTPException int string | RequestValidationError | OverflowError

section \<open>Schema validation and the row object\<close>

text \<open>
  Building a \<^verbatim>\<open>ToDoSchema\<close> from a request body: \<^verbatim>\<open>title\<close> is required, the other two
  fields take their declared defaults when the body omits them.
\<close>

definition parse_obj :: "payload \<Rightarrow> error + ToDoSchema" where
  "parse_obj body =
     (case payload.title body of
        None \<Rightarrow> Inl RequestValidationError
      | Some t \<Rightarrow>
          Inr \<lparr>ToDoSchema.title = t,
               ToDoSchema.description = payload.description body,
               ToDoSchema.completed =
                 (case payload.completed body of None \<Rightarrow> False | Some c \<Rightarrow> c)\<rparr>)"

text \<open>\<^verbatim>\<open>todo.dict()\<close>: the model's fields by name, in declaration order.\<close>

definition dict :: "ToDoSchema \<Rightarrow> (string \<times> pyval) list" where
  "dict todo =
     [(''title'', PStr (ToDoSchema.title todo)),
      (''description'',
         (case ToDoSchema.description todo of None \<Rightarrow> PNone | Some d \<Rightarrow> PStr d)),
      (''completed'', PBool (ToDoSchema.completed todo))]"

text \<open>
  \<^verbatim>\<open>setattr(todo, key, value)\<close> on a row object. A name that is no column leaves the
  columns as they are. The primary key takes integers only; no handler assigns it.
\<close>

definition setattr :: "ToDoDB \<Rightarrow> string \<Rightarrow> pyval \<Rightarrow> ToDoDB" where
  "setattr todo key val =
     (if key = ''id'' then (case val of PInt i \<Rightarrow> todo\<lparr>id_pk := i\<rparr> | _ \<Rightarrow> todo)
      else if key = ''title'' then todo\<lparr>ToDoDB.title := val\<rparr>
      else if key = ''description'' then todo\<lparr>ToDoDB.description := val\<rparr>
      else if key = ''completed'' then todo\<lparr>ToDoDB.completed := val\<rparr>
      else todo)"

text \<open>
  The loop \<^verbatim>\<open>for key, value in items: setattr(todo, key, value)\<close>; the keyword
  constructor \<^verbatim>\<open>ToDoDB(**kwargs)\<close> runs the same loop on a fresh object.
\<close>

definition setattrs :: "(string \<times> pyval) list \<Rightarrow> ToDoDB \<Rightarrow> ToDoDB" where
  "setattrs items todo = fold (\<lambda>(key, val) r. setattr r key val) items todo"

section \<open>The storage engine\<close>

text \<open>
  \<^verbatim>\<open>id = Column(Integer, primary_key=True)\<close> on SQLite is an alias of the rowid, declared
  without \<^verbatim>\<open>AUTOINCREMENT\<close>: an insert that gives no id receives one more than the largest
  id in the table at that moment, and 1 when the table is empty. The table keeps no
  counter besides its rows. (At a table that holds the largest rowid \<open>2^63 - 1\<close> the
  engine takes an unused id at random instead; fewer than \<open>2^63\<close> requests do not lead
  from the empty table to such a table, and \<open>next_rowid\<close> is one more than the largest
  id there too.)
\<close>

definition next_rowid :: "table \<Rightarrow> int" where
  "next_rowid db = (if db = [] then 1 else Max (set (map id_pk db)) + 1)"

text \<open>The primary-key constraint: no two rows of the table share an id.\<close>

definition primary_key :: "table \<Rightarrow> bool" where
  "primary_key db = distinct (map id_pk db)"

text \<open>
  The integers the driver can hand to the engine, and the engine can store as a rowid:
  the signed 64-bit ones.
\<close>

definition int64 :: "int \<Rightarrow> bool" where
  "int64 i = (- 9223372036854775808 \<le> i \<and> i \<le> 9223372036854775807)"

text \<open>
  \<^verbatim>\<open>db.query(ToDoDB).filter(ToDoDB.id == todo_id).first()\<close>: the first row with that id,
  or \<^verbatim>\<open>None\<close>. To bind \<^verbatim>\<open>todo_id\<close> the driver converts it to a signed 64-bit integer
  and raises \<^verbatim>\<open>OverflowError\<close> when it does not fit. Every id that the engine stores
  fits, so an id that does not fit is the id of no row. A table of the model is a list
  over \<open>int\<close>: there a row stored under the id is returned whatever the id, and the
  driver's error is the answer for the ids that do not fit and are not stored. On a
  table whose ids all fit this is the driver's check followed by the lookup (lemma
  \<open>first_by_id_int64\<close> below), and the tables served from the empty one are such
  tables (lemma \<open>served_ids_int64\<close>).
\<close>

definition first_by_id :: "int \<Rightarrow> table \<Rightarrow> error + ToDoDB option" where
  "first_by_id todo_id db =
     (case find (\<lambda>r. id_pk r = todo_id) db of
        Some todo \<Rightarrow> Inr (Some todo)
      | None \<Rightarrow> if int64 todo_id then Inr None else Inl OverflowError)"

section \<open>The five handlers\<close>

text \<open>
  \<^verbatim>\<open>create_todo\<close>: the row object is built from \<^verbatim>\<open>todo.dict()\<close>, inserted and committed;
  \<^verbatim>\<open>refresh\<close> reads it back with the id the engine gave it. Columns the constructor
  does not receive are \<^verbatim>\<open>NULL\<close>, or the column default \<^verbatim>\<open>False\<close> for \<^verbatim>\<open>completed\<close>.
\<close>

definition create_todo :: "ToDoSchema \<Rightarrow> table \<Rightarrow> ToDoDB \<times> table" where
  "create_todo todo db =
     (let db_todo = setattrs (dict todo)
            \<lparr>id_pk = next_rowid db, title = PNone, description = PNone,
             completed = PBool False\<rparr>
      in (db_todo, db @ [db_todo]))"

text \<open>\<^verbatim>\<open>get_todos\<close>: \<^verbatim>\<open>query(ToDoDB).all()\<close>, every row, in the order the engine keeps them.\<close>

definition get_todos :: "table \<Rightarrow> ToDoDB list \<times> table" where
  "get_todos db = (db, db)"

text \<open>
  \<^verbatim>\<open>get_todo\<close>: the query gives the row, or \<^verbatim>\<open>None\<close>, on which the handler raises; an
  error of the query itself passes through the handler. Nothing is written.
\<close>

definition get_todo :: "int \<Rightarrow> table \<Rightarrow> (error + ToDoDB) \<times> table" where
  "get_todo todo_id db =
     (case first_by_id todo_id db of
        Inl e \<Rightarrow> (Inl e, db)
      | Inr None \<Rightarrow> (Inl (HTTPException 404 ''To-Do not found''), db)
      | Inr (Some todo) \<Rightarrow> (Inr todo, db))"

text \<open>
  \<^verbatim>\<open>update_todo\<close>: the commit writes the changed object back to the row it was read
  from, and \<^verbatim>\<open>refresh\<close> returns that row.
\<close>

definition update_todo :: "int \<Rightarrow> ToDoSchema \<Rightarrow> table \<Rightarrow> (error + ToDoDB) \<times> table" where
  "update_todo todo_id updated_todo db =
     (case first_by_id todo_id db of
        Inl e \<Rightarrow> (Inl e, db)
      | Inr None \<Rightarrow> (Inl (HTTPException 404 ''To-Do not found''), db)
      | Inr (Some todo) \<Rightarrow>
          (let todo' = setattrs (dict updated_todo) todo
           in (Inr todo', map (\<lambda>r. if id_pk r = todo_id then todo' else r) db)))"

text \<open>
  \<^verbatim>\<open>delete_todo\<close>: the commit deletes from the table by the primary key of the object
  that was read.
\<close>

definition delete_todo :: "int \<Rightarrow> table \<Rightarrow> (error + (string \<times> string) list) \<times> table" where
  "delete_todo todo_id db =
     (case first_by_id todo_id db of
        Inl e \<Rightarrow> (Inl e, db)
      | Inr None \<Rightarrow> (Inl (HTTPException 404 ''To-Do not found''), db)
      | Inr (Some todo) \<Rightarrow>
          (Inr [(''message'', ''To-Do deleted successfully'')],
           filter (\<lambda>r. id_pk r \<noteq> id_pk todo) db))"

section \<open>Requests\<close>

text \<open>
  The routes of \<^verbatim>\<open>app\<close>. A body is validated against \<^verbatim>\<open>ToDoSchema\<close> before the handler
  is called; a body that fails never reaches the table. An \<^verbatim>\<open>HTTPException\<close> is sent
  with its status code and the body \<^verbatim>\<open>{"detail": detail}\<close>.
\<close>

datatype request =
    POST_todos payload
  | GET_todos
  | GET_todo int
  | PUT_todo int payload
  | DELETE_todo int

datatype content = Todo ToDoDB | Todos "ToDoDB list" | Object "(string \<times> string) list"

definition app :: "request \<Rightarrow> table \<Rightarrow> (error + content) \<times> table" where
  "app rq db =
     (case rq of
        POST_todos body \<Rightarrow>
          (case parse_obj body of
             Inl e \<Rightarrow> (Inl e, db)
           | Inr todo \<Rightarrow> (case create_todo todo db of (r, db') \<Rightarrow> (Inr (Todo r), db')))
      | GET_todos \<Rightarrow> (case get_todos db of (rs, db') \<Rightarrow> (Inr (Todos rs), db'))
      | GET_todo todo_id \<Rightarrow> (case get_todo todo_id db of (res, db') \<Rightarrow> (map_sum (\<lambda>e. e) Todo res, db'))
      | PUT_todo todo_id body \<Rightarrow>
          (case parse_obj body of
             Inl e \<Rightarrow> (Inl e, db)
           | Inr todo \<Rightarrow>
               (case update_todo todo_id todo db of (res, db') \<Rightarrow> (map_sum (\<lambda>e. e) Todo res, db')))
      | DELETE_todo todo_id \<Rightarrow>
          (case delete_todo todo_id db of (res, db') \<Rightarrow> (map_sum (\<lambda>e. e) Object res, db')))"


text \<open>
  A sequence of requests served one after the other; the log pairs each request with
  what it returned.
\<close>

fun serve :: "request list \<Rightarrow> table \<Rightarrow> (request \<times> (error + content)) list \<times> table" where
  "serve [] db = ([], db)"
| "serve (rq # rqs) db =
     (case app rq db of (res, db') \<Rightarrow>
        (case serve rqs db' of (log, db'') \<Rightarrow> ((rq, res) # log, db'')))"

section \<open>Observations on a log and on a table\<close>

text \<open>A request that created a row, one that deleted a row, and the ids handed out.\<close>

fun is_created :: "request \<times> (error + content) \<Rightarrow> bool" where
  "is_created (POST_todos _, Inr _) = True"
| "is_created _ = False"

fun is_deleted :: "request \<times> (error + content) \<Rightarrow> bool" where
  "is_deleted (DELETE_todo _, Inr _) = True"
| "is_deleted _ = False"

fun created_ids :: "(request \<times> (error + content)) list \<Rightarrow> int list" where
  "created_ids [] = []"
| "created_ids ((POST_todos _, Inr (Todo r)) # log) = id_pk r # created_ids log"
| "created_ids (_ # log) = created_ids log"

fun is_str :: "pyval \<Rightarrow> bool" where
  "is_str (PStr _) = True"
| "is_str _ = False"

definition title_not_null :: "table \<Rightarrow> bool" where
  "title_not_null db = list_all (\<lambda>r. is_str (ToDoDB.title r)) db"

text \<open>Every stored id lies between 1 and \<open>n\<close>.\<close>

definition ids_upto :: "nat \<Rightarrow> table \<Rightarrow> bool" where
  "ids_upto n db = list_all (\<lambda>r. 1 \<le> id_pk r \<and> id_pk r \<le> int n) db"

section \<open>Lookup by id\<close>

lemma find_absent: "todo_id \<notin> id_pk ` set db \<Longrightarrow> find (\<lambda>r. id_pk r = todo_id) db = None"
  by (induction db) auto


lemma find_some_member:
  "find (\<lambda>r. id_pk r = todo_id) db = Some todo \<Longrightarrow> todo \<in> set db \<and> id_pk todo = todo_id"
  by (induction db) (auto split: if_splits)

lemma find_member_some:
  "r \<in> set db \<Longrightarrow> \<exists>todo. find (\<lambda>x. id_pk x = id_pk r) db = Some todo"
  by (induction db) auto

lemma first_by_id_found:
  "find (\<lambda>r. id_pk r = todo_id) db = Some todo \<Longrightarrow> first_by_id todo_id db = Inr (Some todo)"
  by (simp add: first_by_id_def)

lemma first_by_id_absent:
  "todo_id \<notin> id_pk ` set db \<Longrightarrow>
   first_by_id todo_id db = (if int64 todo_id then Inr None else Inl OverflowError)"
  by (simp add: first_by_id_def find_absent)

text \<open>On a table of 64-bit ids: the driver's check first, then the lookup.\<close>

lemma first_by_id_int64:
  assumes "list_all (\<lambda>r. int64 (id_pk r)) db"
  shows "first_by_id todo_id db =
           (if int64 todo_id then Inr (find (\<lambda>r. id_pk r = todo_id) db) else Inl OverflowError)"
proof (cases "find (\<lambda>r. id_pk r = todo_id) db")
  case None
  then show ?thesis by (simp add: first_by_id_def)
next
  case (Some todo)
  from find_some_member [OF Some] assms have "int64 todo_id"
    by (auto simp: list_all_iff)
  with Some show ?thesis by (simp add: first_by_id_def)
qed

lemma get_todo_find:
  "get_todo todo_id db =
     (case find (\<lambda>r. id_pk r = todo_id) db of
        None \<Rightarrow> (Inl (if int64 todo_id then HTTPException 404 ''To-Do not found''
                       else OverflowError), db)
      | Some todo \<Rightarrow> (Inr todo, db))"
  by (simp add: get_todo_def first_by_id_def split: option.split)

lemma update_todo_find:
  "update_todo todo_id updated_todo db =
     (case find (\<lambda>r. id_pk r = todo_id) db of
        None \<Rightarrow> (Inl (if int64 todo_id then HTTPException 404 ''To-Do not found''
                       else OverflowError), db)
      | Some todo \<Rightarrow>
          (Inr (setattrs (dict updated_todo) todo),
           map (\<lambda>r. if id_pk r = todo_id then setattrs (dict updated_todo) todo else r) db))"
  by (simp add: update_todo_def first_by_id_def Let_def split: option.split)

lemma delete_todo_find:
  "delete_todo todo_id db =
     (case find (\<lambda>r. id_pk r = todo_id) db of
        None \<Rightarrow> (Inl (if int64 todo_id then HTTPException 404 ''To-Do not found''
                       else OverflowError), db)
      | Some todo \<Rightarrow>
          (Inr [(''message'', ''To-Do deleted successfully'')],
           filter (\<lambda>r. id_pk r \<noteq> id_pk todo) db))"
  by (simp add: delete_todo_def first_by_id_def split: option.split)

lemma find_appended:
  "i \<notin> id_pk ` set db \<Longrightarrow> id_pk r = i \<Longrightarrow> find (\<lambda>x. id_pk x = i) (db @ [r]) = Some r"
  by (induction db) auto

lemma find_updated:
  "find (\<lambda>x. id_pk x = i) db = Some r \<Longrightarrow> id_pk r' = i \<Longrightarrow>
   find (\<lambda>x. id_pk x = i) (map (\<lambda>x. if id_pk x = i then r' else x) db) = Some r'"
  by (induction db) (auto split: if_splits)

lemma map_updated_twice:
  "id_pk r' = i \<Longrightarrow>
   map (\<lambda>x. if id_pk x = i then r' else x) (map (\<lambda>x. if id_pk x = i then r' else x) db)
     = map (\<lambda>x. if id_pk x = i then r' else x) db"
  by (induction db) auto

lemma length_filter_other_ids:
  "distinct (map id_pk db) \<Longrightarrow> r \<in> set db \<Longrightarrow>
   Suc (length (filter (\<lambda>x. id_pk x \<noteq> id_pk r) db)) = length db"
proof (induction db)
  case Nil
  then show ?case by simp
next
  case (Cons a db)
  show ?case
  proof (cases "id_pk a = id_pk r")
    case True
    with Cons.prems have "\<forall>x\<in>set db. id_pk x \<noteq> id_pk r"
      by (auto simp: image_iff)
    then have "filter (\<lambda>x. id_pk x \<noteq> id_pk r) db = db" by simp
    with True show ?thesis by simp
  next
    case False
    with Cons show ?thesis by auto
  qed
qed

section \<open>The schema and the attribute loop\<close>

lemma parse_obj_valid:
  "payload.title body = Some t \<Longrightarrow>
   parse_obj body =
     Inr \<lparr>ToDoSchema.title = t,
          ToDoSchema.description = payload.description body,
          ToDoSchema.completed = (case payload.completed body of None \<Rightarrow> False | Some c \<Rightarrow> c)\<rparr>"
  by (simp add: parse_obj_def)

text \<open>The loop over \<^verbatim>\<open>dict()\<close> assigns the three data columns and nothing else.\<close>

lemma setattrs_dict:
  "setattrs (dict u) r =
     r\<lparr>ToDoDB.title := PStr (ToDoSchema.title u),
       ToDoDB.description := (case ToDoSchema.description u of None \<Rightarrow> PNone | Some d \<Rightarrow> PStr d),
       ToDoDB.completed := PBool (ToDoSchema.completed u)\<rparr>"
  by (simp add: setattrs_def dict_def setattr_def)

lemma setattrs_dict_twice: "setattrs (dict u) (setattrs (dict u) r) = setattrs (dict u) r"
  by (simp add: setattrs_dict)

lemma id_pk_setattrs_dict: "id_pk (setattrs (dict u) r) = id_pk r"
  by (simp add: setattrs_dict)

lemma setattrs_dict_title: "is_str (ToDoDB.title (setattrs (dict u) r))"
  by (simp add: setattrs_dict)

section \<open>The engine's choice of id\<close>

lemma next_rowid_above: "r \<in> set db \<Longrightarrow> id_pk r < next_rowid db"
proof -
  assume r: "r \<in> set db"
  then have ne: "db \<noteq> []" by auto
  from r have "id_pk r \<in> set (map id_pk db)" by simp
  then have "id_pk r \<le> Max (set (map id_pk db))" by (intro Max_ge) auto
  with ne show ?thesis by (simp add: next_rowid_def)
qed

lemma next_rowid_fresh: "next_rowid db \<notin> id_pk ` set db"
  using next_rowid_above by fastforce

section \<open>One handler call\<close>

lemma create_todo_row:
  "create_todo todo db =
     (let row = \<lparr>id_pk = next_rowid db, title = PStr (ToDoSchema.title todo),
                 description = (case ToDoSchema.description todo of None \<Rightarrow> PNone | Some d \<Rightarrow> PStr d),
                 completed = PBool (ToDoSchema.completed todo)\<rparr>
      in (row, db @ [row]))"
  by (simp add: create_todo_def setattrs_dict Let_def)

lemma create_todo_step:
  assumes "primary_key db" and "create_todo todo db = (row, db')"
  shows "primary_key db' \<and> length db' = Suc (length db)"
proof -
  have "id_pk row = next_rowid db" and "db' = db @ [row]"
    using assms(2) by (auto simp: create_todo_row Let_def)
  then show ?thesis
    using assms(1) next_rowid_fresh [of db] by (simp add: primary_key_def)
qed

lemma update_todo_found:
  "find (\<lambda>x. id_pk x = todo_id) db = Some todo \<Longrightarrow>
   update_todo todo_id u db =
     (Inr (setattrs (dict u) todo),
      map (\<lambda>x. if id_pk x = todo_id then setattrs (dict u) todo else x) db)"
  by (simp add: update_todo_find Let_def)

lemma update_todo_again:
  assumes "find (\<lambda>x. id_pk x = todo_id) db = Some todo"
  shows "update_todo todo_id u (snd (update_todo todo_id u db)) = update_todo todo_id u db"
proof -
  let ?r = "setattrs (dict u) todo"
  let ?db = "map (\<lambda>x. if id_pk x = todo_id then ?r else x) db"
  have i: "id_pk ?r = todo_id"
    using find_some_member [OF assms] by (simp add: id_pk_setattrs_dict)
  have f: "find (\<lambda>x. id_pk x = todo_id) ?db = Some ?r"
    using assms i by (rule find_updated)
  have "update_todo todo_id u ?db = (Inr (setattrs (dict u) ?r),
      map (\<lambda>x. if id_pk x = todo_id then setattrs (dict u) ?r else x) ?db)"
    using f by (rule update_todo_found)
  also have "\<dots> = (Inr ?r, ?db)"
    by (simp only: setattrs_dict_twice map_updated_twice [OF i])
  finally show ?thesis
    by (simp only: update_todo_found [OF assms] snd_conv)
qed

lemma update_todo_step:
  assumes "update_todo todo_id u db = (res, db')"
  shows "map id_pk db' = map id_pk db"
proof (cases "find (\<lambda>x. id_pk x = todo_id) db")
  case None
  with assms show ?thesis by (simp add: update_todo_find)
next
  case (Some todo)
  have i: "id_pk (setattrs (dict u) todo) = todo_id"
    using find_some_member [OF Some] by (simp add: id_pk_setattrs_dict)
  have "db' = map (\<lambda>x. if id_pk x = todo_id then setattrs (dict u) todo else x) db"
    using assms by (simp add: update_todo_found [OF Some])
  then show ?thesis using i by simp
qed

lemma delete_todo_step:
  assumes "primary_key db" and "delete_todo todo_id db = (res, db')"
  shows "primary_key db' \<and> (case res of Inl _ \<Rightarrow> length db' = length db
                                | Inr _ \<Rightarrow> Suc (length db') = length db)"
proof (cases "find (\<lambda>x. id_pk x = todo_id) db")
  case None
  with assms show ?thesis by (auto simp: delete_todo_find)
next
  case (Some todo)
  have m: "todo \<in> set db" using find_some_member [OF Some] by simp
  have "res = Inr [(''message'', ''To-Do deleted successfully'')]"
    and d: "db' = filter (\<lambda>x. id_pk x \<noteq> id_pk todo) db"
    using assms(2) by (auto simp: delete_todo_find Some)
  moreover have "Suc (length (filter (\<lambda>x. id_pk x \<noteq> id_pk todo) db)) = length db"
    using assms(1) m unfolding primary_key_def by (rule length_filter_other_ids)
  moreover have "primary_key db'"
    using assms(1) unfolding primary_key_def d by (simp add: distinct_map_filter)
  ultimately show ?thesis by simp
qed

section \<open>One request, and a sequence of requests\<close>

text \<open>
  Every request keeps the primary-key constraint, and changes the number of rows by
  one exactly when it created or deleted a row.
\<close>

lemma app_step:
  assumes "primary_key db" and "app rq db = (res, db')"
  shows "primary_key db'
       \<and> length db' + (if is_deleted (rq, res) then 1 else 0)
           = length db + (if is_created (rq, res) then 1 else 0)"
proof (cases rq)
  case (POST_todos body)
  show ?thesis
  proof (cases "parse_obj body")
    case (Inl e)
    with assms POST_todos show ?thesis by (auto simp: app_def)
  next
    case (Inr todo)
    obtain row where c: "create_todo todo db = (row, db')" and "res = Inr (Todo row)"
      using assms(2) POST_todos Inr by (auto simp: app_def split: prod.splits)
    with create_todo_step [OF assms(1) c] POST_todos show ?thesis by simp
  qed
next
  case GET_todos
  with assms show ?thesis by (auto simp: app_def get_todos_def)
next
  case (GET_todo todo_id)
  with assms show ?thesis by (auto simp: app_def get_todo_find split: option.splits)
next
  case (PUT_todo todo_id body)
  show ?thesis
  proof (cases "parse_obj body")
    case (Inl e)
    with assms PUT_todo show ?thesis by (auto simp: app_def)
  next
    case (Inr todo)
    obtain res' where "update_todo todo_id todo db = (res', db')"
      using assms(2) PUT_todo Inr by (auto simp: app_def split: prod.splits)
    then have "map id_pk db' = map id_pk db" by (rule update_todo_step)
    then have "primary_key db'" and "length db' = length db"
      using assms(1) map_eq_imp_length_eq by (auto simp: primary_key_def)
    with PUT_todo show ?thesis by simp
  qed
next
  case (DELETE_todo todo_id)
  obtain res' where d: "delete_todo todo_id db = (res', db')"
    and r: "res = map_sum (\<lambda>e. e) Object res'"
    using assms(2) DELETE_todo by (auto simp: app_def split: prod.splits)
  from delete_todo_step [OF assms(1) d] r DELETE_todo show ?thesis
    by (cases res') auto
qed

lemma serve_count:
  "primary_key db \<Longrightarrow> serve rqs db = (log, db') \<Longrightarrow>
   primary_key db'
   \<and> length db' + length (filter is_deleted log) = length db + length (filter is_created log)"
proof (induction rqs arbitrary: db log db')
  case Nil
  then show ?case by simp
next
  case (Cons rq rqs)
  obtain res db1 where a: "app rq db = (res, db1)" by (cases "app rq db")
  obtain log1 where s: "serve rqs db1 = (log1, db')" and l: "log = (rq, res) # log1"
    using Cons.prems(2) a by (auto split: prod.splits)
  from app_step [OF Cons.prems(1) a] have p1: "primary_key db1"
    and c1: "length db1 + (if is_deleted (rq, res) then 1 else 0)
           = length db + (if is_created (rq, res) then 1 else 0)" by auto
  from Cons.IH [OF p1 s] have "primary_key db'"
    and "length db' + length (filter is_deleted log1) = length db1 + length (filter is_created log1)"
    by auto
  with c1 l show ?case by (auto split: if_splits)
qed

lemma app_title_not_null:
  assumes "title_not_null db"
  shows "title_not_null (snd (app rq db))"
proof (cases rq)
  case (POST_todos body)
  with assms show ?thesis
    by (cases "parse_obj body")
       (simp_all add: app_def create_todo_def Let_def title_not_null_def setattrs_dict_title)
next
  case GET_todos
  with assms show ?thesis by (simp add: app_def get_todos_def)
next
  case (GET_todo todo_id)
  with assms show ?thesis by (simp add: app_def get_todo_find split: option.split)
next
  case (PUT_todo todo_id body)
  show ?thesis
  proof (cases "parse_obj body")
    case (Inl e)
    with assms PUT_todo show ?thesis by (simp add: app_def)
  next
    case (Inr u)
    have "title_not_null (snd (update_todo todo_id u db))"
      using assms
      by (auto simp: update_todo_find Let_def title_not_null_def list_all_iff
                     setattrs_dict_title split: option.split)
    with PUT_todo Inr show ?thesis by (auto simp: app_def split: prod.splits)
  qed
next
  case (DELETE_todo todo_id)
  have "title_not_null (snd (delete_todo todo_id db))"
    using assms
    by (simp add: delete_todo_find title_not_null_def list_all_iff split: option.split)
  with DELETE_todo show ?thesis by (auto simp: app_def split: prod.splits)
qed

lemma serve_title_not_null:
  "title_not_null db \<Longrightarrow> title_not_null (snd (serve rqs db))"
proof (induction rqs arbitrary: db)
  case Nil
  then show ?case by simp
next
  case (Cons rq rqs)
  from Cons.IH [OF app_title_not_null [OF Cons.prems, of rq]]
  show ?case by (auto split: prod.splits)
qed

text \<open>
  From the empty table, \<open>n\<close> requests store ids between 1 and \<open>n\<close> only, so every table
  served in fewer than \<open>2^63\<close> requests holds 64-bit ids.
\<close>

lemma next_rowid_upto:
  assumes "ids_upto n db"
  shows "1 \<le> next_rowid db \<and> next_rowid db \<le> int (Suc n)"
proof (cases "db = []")
  case True
  then show ?thesis by (simp add: next_rowid_def)
next
  case False
  then have "Max (set (map id_pk db)) \<in> set (map id_pk db)"
    by (intro Max_in) auto
  then obtain r where "r \<in> set db" and "Max (set (map id_pk db)) = id_pk r" by auto
  with assms False show ?thesis
    by (auto simp: next_rowid_def ids_upto_def list_all_iff)
qed

lemma app_ids_upto:
  assumes "ids_upto n db"
  shows "ids_upto (Suc n) (snd (app rq db))"
proof -
  have w: "ids_upto (Suc n) db"
    using assms by (auto simp: ids_upto_def list_all_iff)
  show ?thesis
  proof (cases rq)
    case (POST_todos body)
    show ?thesis
    proof (cases "parse_obj body")
      case (Inl e)
      with POST_todos w show ?thesis by (simp add: app_def)
    next
      case (Inr u)
      with POST_todos w next_rowid_upto [OF assms] show ?thesis
        by (simp add: app_def create_todo_row Let_def ids_upto_def)
    qed
  next
    case GET_todos
    with w show ?thesis by (simp add: app_def get_todos_def)
  next
    case (GET_todo todo_id)
    with w show ?thesis by (simp add: app_def get_todo_find split: option.split)
  next
    case (PUT_todo todo_id body)
    show ?thesis
    proof (cases "parse_obj body")
      case (Inl e)
      with PUT_todo w show ?thesis by (simp add: app_def)
    next
      case (Inr u)
      obtain res db' where u: "update_todo todo_id u db = (res, db')"
        by (cases "update_todo todo_id u db")
      from update_todo_step [OF u] have "map id_pk db' = map id_pk db" .
      then have "set (map id_pk db') = set (map id_pk db)" by simp
      with w have "ids_upto (Suc n) db'"
        unfolding ids_upto_def list_all_iff by (metis (no_types, lifting) image_iff list.set_map)
      with PUT_todo Inr u show ?thesis by (simp add: app_def)
    qed
  next
    case (DELETE_todo todo_id)
    with w show ?thesis
      by (auto simp: app_def delete_todo_find ids_upto_def list_all_iff split: option.split)
  qed
qed

lemma serve_ids_upto:
  "ids_upto n db \<Longrightarrow> ids_upto (n + length rqs) (snd (serve rqs db))"
proof (induction rqs arbitrary: n db)
  case Nil
  then show ?case by simp
next
  case (Cons rq rqs)
  from Cons.IH [OF app_ids_upto [OF Cons.prems, of rq]]
  show ?case by (auto split: prod.splits)
qed

lemma served_ids_int64:
  assumes "length rqs < 2 ^ 63"
  shows "list_all (\<lambda>r. int64 (id_pk r)) (snd (serve rqs []))"
proof -
  have "ids_upto 0 []" by (simp add: ids_upto_def)
  from serve_ids_upto [OF this, of rqs]
  have "ids_upto (length rqs) (snd (serve rqs []))" by simp
  moreover have "int (length rqs) \<le> 9223372036854775807"
    using assms by simp
  ultimately show ?thesis
    by (auto simp: ids_upto_def list_all_iff int64_def)
qed

section \<open>The claims\<close>

text \<open>
  C1. Update is a full replacement. When a row with the id is stored and the body is
  valid (it has a title), \<^verbatim>\<open>PUT /todos/{id}\<close> returns and stores the row whose title,
  description and completed are those of the body, an omitted description becoming
  null and an omitted completed becoming false, whatever the row held before; the
  table is otherwise as it was. The same PUT applied to the resulting table returns
  the same row and leaves that table as it is.
\<close>

theorem update_todo_full_replacement:
  assumes "r \<in> set db" and "id_pk r = todo_id" and "payload.title body = Some t"
  shows "let todo' = \<lparr>id_pk = todo_id, title = PStr t,
                      description = (case payload.description body of
                                       None \<Rightarrow> PNone | Some d \<Rightarrow> PStr d),
                      completed = PBool (case payload.completed body of
                                           None \<Rightarrow> False | Some c \<Rightarrow> c)\<rparr>;
             db' = map (\<lambda>x. if id_pk x = todo_id then todo' else x) db
         in app (PUT_todo todo_id body) db = (Inr (Todo todo'), db')
          \<and> get_todo todo_id db' = (Inr todo', db')
          \<and> app (PUT_todo todo_id body) db' = (Inr (Todo todo'), db')"
proof -
  let ?u = "\<lparr>ToDoSchema.title = t,
          ToDoSchema.description = payload.description body,
          ToDoSchema.completed = (case payload.completed body of None \<Rightarrow> False | Some c \<Rightarrow> c)\<rparr>"
  let ?todo' = "\<lparr>id_pk = todo_id, title = PStr t,
                      description = (case payload.description body of
                                       None \<Rightarrow> PNone | Some d \<Rightarrow> PStr d),
                      completed = PBool (case payload.completed body of
                                           None \<Rightarrow> False | Some c \<Rightarrow> c)\<rparr>"
  let ?db' = "map (\<lambda>x. if id_pk x = todo_id then ?todo' else x) db"
  have p: "parse_obj body = Inr ?u"
    using assms(3) by (rule parse_obj_valid)
  obtain todo where f: "find (\<lambda>x. id_pk x = todo_id) db = Some todo"
    using find_member_some [OF assms(1)] assms(2) by auto
  have idt: "id_pk todo = todo_id"
    using find_some_member [OF f] by simp
  have eq: "setattrs (dict ?u) todo = ?todo'"
    using idt by (cases todo) (simp add: setattrs_dict)
  have upd: "update_todo todo_id ?u db = (Inr ?todo', ?db')"
    using update_todo_found [OF f, of ?u] by (simp only: eq)
  have upd': "update_todo todo_id ?u ?db' = (Inr ?todo', ?db')"
    using update_todo_again [OF f, of ?u] by (simp only: upd snd_conv)
  have f': "find (\<lambda>x. id_pk x = todo_id) ?db' = Some ?todo'"
    using f by (rule find_updated) simp
  have a1: "app (PUT_todo todo_id body) db = (Inr (Todo ?todo'), ?db')"
    by (simp add: app_def p upd)
  have a2: "app (PUT_todo todo_id body) ?db' = (Inr (Todo ?todo'), ?db')"
    by (simp add: app_def p upd')
  have g: "get_todo todo_id ?db' = (Inr ?todo', ?db')"
    by (simp add: get_todo_find f')
  show ?thesis
    unfolding Let_def by (intro conjI a1 a2 g)
qed

theorem update_todo_full_replacement_witness:
  "\<lparr>id_pk = 1, title = PStr ''Buy milk'', description = PStr ''2 litres'',
     completed = PBool True\<rparr>
     \<in> set [\<lparr>id_pk = 1, title = PStr ''Buy milk'', description = PStr ''2 litres'',
              completed = PBool True\<rparr>]
   \<and> app (PUT_todo 1 \<lparr>payload.title = Some ''Walk'', payload.description = None,
                      payload.completed = None\<rparr>)
        [\<lparr>id_pk = 1, title = PStr ''Buy milk'', description = PStr ''2 litres'',
           completed = PBool True\<rparr>]
      = (Inr (Todo \<lparr>id_pk = 1, title = PStr ''Walk'', description = PNone,
                    completed = PBool False\<rparr>),
         [\<lparr>id_pk = 1, title = PStr ''Walk'', description = PNone, completed = PBool False\<rparr>])
   \<and> app (PUT_todo 1 \<lparr>payload.title = Some ''Walk'', payload.description = None,
                      payload.completed = None\<rparr>)
        [\<lparr>id_pk = 1, title = PStr ''Walk'', description = PNone, completed = PBool False\<rparr>]
      = (Inr (Todo \<lparr>id_pk = 1, title = PStr ''Walk'', description = PNone,
                    completed = PBool False\<rparr>),
         [\<lparr>id_pk = 1, title = PStr ''Walk'', description = PNone, completed = PBool False\<rparr>])"
  using update_todo_full_replacement
    [of "\<lparr>id_pk = 1, title = PStr ''Buy milk'', description = PStr ''2 litres'',
          completed = PBool True\<rparr>"
        "[\<lparr>id_pk = 1, title = PStr ''Buy milk'', description = PStr ''2 litres'',
           completed = PBool True\<rparr>]"
        1
        "\<lparr>payload.title = Some ''Walk'', payload.description = None,
          payload.completed = None\<rparr>"
        "''Walk''"]
  by (simp add: Let_def)







text \<open>
  C4. A creation body that has a title and omits description and completed: the row
  that \<^verbatim>\<open>POST /todos/\<close> stores and returns has completed = false and description =
  null, and a GET on its id returns that row.
\<close>

theorem create_todo_defaults:
  "let body = \<lparr>payload.title = Some t, payload.description = None, payload.completed = None\<rparr>;
       row = \<lparr>id_pk = next_rowid db, title = PStr t, description = PNone,
              completed = PBool False\<rparr>
   in app (POST_todos body) db = (Inr (Todo row), db @ [row])
    \<and> get_todo (id_pk row) (db @ [row]) = (Inr row, db @ [row])"
proof -
  let ?row = "\<lparr>id_pk = next_rowid db, title = PStr t, description = PNone,
               completed = PBool False\<rparr>"
  have "find (\<lambda>x. id_pk x = next_rowid db) (db @ [?row]) = Some ?row"
    using next_rowid_fresh by (rule find_appended) simp
  then show ?thesis
    by (simp add: Let_def app_def parse_obj_def create_todo_row get_todo_find)
qed

theorem create_todo_defaults_witness:
  "app (POST_todos \<lparr>payload.title = Some ''Buy milk'', payload.description = None,
                    payload.completed = None\<rparr>) []
     = (Inr (Todo \<lparr>id_pk = 1, title = PStr ''Buy milk'', description = PNone,
                   completed = PBool False\<rparr>),
        [\<lparr>id_pk = 1, title = PStr ''Buy milk'', description = PNone,
           completed = PBool False\<rparr>])
   \<and> get_todo 1 [\<lparr>id_pk = 1, title = PStr ''Buy milk'', description = PNone,
                   completed = PBool False\<rparr>]
     = (Inr \<lparr>id_pk = 1, title = PStr ''Buy milk'', description = PNone,
             completed = PBool False\<rparr>,
        [\<lparr>id_pk = 1, title = PStr ''Buy milk'', description = PNone,
           completed = PBool False\<rparr>])"
  using create_todo_defaults [of "''Buy milk''" "[]"]
  by (simp add: Let_def next_rowid_def)

text \<open>
  C5. \<^verbatim>\<open>DELETE /todos/{id}\<close> for the id of a stored row returns the message
  \<^verbatim>\<open>{"message": "To-Do deleted successfully"}\<close> and leaves the table without the rows of
  that id; a GET on that id then raises the 404 error. (The id of a row that the engine
  stores is a 64-bit integer. A list of the model may hold a row of another id; the GET
  after its deletion ends in the driver's error.)
\<close>

theorem delete_todo_removes_row:
  assumes "r \<in> set db"
  shows "let db' = filter (\<lambda>x. id_pk x \<noteq> id_pk r) db
         in delete_todo (id_pk r) db = (Inr [(''message'', ''To-Do deleted successfully'')], db')
          \<and> app (DELETE_todo (id_pk r)) db
              = (Inr (Object [(''message'', ''To-Do deleted successfully'')]), db')
          \<and> r \<notin> set db'
          \<and> get_todo (id_pk r) db'
              = (Inl (if int64 (id_pk r) then HTTPException 404 ''To-Do not found''
                      else OverflowError), db')"
proof -
  obtain todo where f: "find (\<lambda>x. id_pk x = id_pk r) db = Some todo"
    using find_member_some [OF assms] by auto
  have idt: "id_pk todo = id_pk r"
    using find_some_member [OF f] by simp
  let ?db' = "filter (\<lambda>x. id_pk x \<noteq> id_pk r) db"
  have d: "delete_todo (id_pk r) db = (Inr [(''message'', ''To-Do deleted successfully'')], ?db')"
    by (simp add: delete_todo_find f idt)
  have a: "app (DELETE_todo (id_pk r)) db
             = (Inr (Object [(''message'', ''To-Do deleted successfully'')]), ?db')"
    by (simp add: app_def d)
  have "id_pk r \<notin> id_pk ` set ?db'" by auto
  then have g: "get_todo (id_pk r) ?db'
                  = (Inl (if int64 (id_pk r) then HTTPException 404 ''To-Do not found''
                          else OverflowError), ?db')"
    by (simp add: get_todo_find find_absent)
  have n: "r \<notin> set ?db'" by simp
  show ?thesis
    unfolding Let_def by (intro conjI d a n g)
qed

theorem delete_todo_removes_row_witness:
  "\<lparr>id_pk = 2, title = PStr ''b'', description = PNone, completed = PBool True\<rparr>
     \<in> set [\<lparr>id_pk = 1, title = PStr ''a'', description = PNone, completed = PBool False\<rparr>,
            \<lparr>id_pk = 2, title = PStr ''b'', description = PNone, completed = PBool True\<rparr>]
   \<and> delete_todo 2
        [\<lparr>id_pk = 1, title = PStr ''a'', description = PNone, completed = PBool False\<rparr>,
         \<lparr>id_pk = 2, title = PStr ''b'', description = PNone, completed = PBool True\<rparr>]
      = (Inr [(''message'', ''To-Do deleted successfully'')],
         [\<lparr>id_pk = 1, title = PStr ''a'', description = PNone, completed = PBool False\<rparr>])
   \<and> get_todo 2 [\<lparr>id_pk = 1, title = PStr ''a'', description = PNone, completed = PBool False\<rparr>]
      = (Inl (HTTPException 404 ''To-Do not found''),
         [\<lparr>id_pk = 1, title = PStr ''a'', description = PNone, completed = PBool False\<rparr>])"
  using delete_todo_removes_row
    [of "\<lparr>id_pk = 2, title = PStr ''b'', description = PNone, completed = PBool True\<rparr>"
        "[\<lparr>id_pk = 1, title = PStr ''a'', description = PNone, completed = PBool False\<rparr>,
          \<lparr>id_pk = 2, title = PStr ''b'', description = PNone, completed = PBool True\<rparr>]"]
  by (simp add: Let_def int64_def)

text \<open>
  C6, as amended. For every valid creation body, \<^verbatim>\<open>POST /todos/\<close> returns a row whose id
  differs from the id of every row that is in the table when the request is served, so
  that the ids of the stored rows stay pairwise distinct. (The engine chooses the id
  from the rows it holds: the id of a row that has been deleted can be given out
  again.)
\<close>

theorem create_todo_id_fresh:
  assumes "payload.title body = Some t"
  shows "\<exists>row. app (POST_todos body) db = (Inr (Todo row), db @ [row])
             \<and> id_pk row \<notin> id_pk ` set db
             \<and> (primary_key db \<longrightarrow> primary_key (db @ [row]))"
proof -
  obtain u where p: "parse_obj body = Inr u"
    using parse_obj_valid [OF assms] by simp
  obtain row db' where c: "create_todo u db = (row, db')" by (cases "create_todo u db")
  then have r: "id_pk row = next_rowid db" and d: "db' = db @ [row]"
    by (auto simp: create_todo_row Let_def)
  have "app (POST_todos body) db = (Inr (Todo row), db @ [row])"
    using p c d by (simp add: app_def)
  moreover have "id_pk row \<notin> id_pk ` set db"
    using next_rowid_fresh [of db] r by simp
  moreover have "primary_key db \<longrightarrow> primary_key (db @ [row])"
    using create_todo_step [OF _ c] d by simp
  ultimately show ?thesis by blast
qed

theorem create_todo_id_fresh_witness:
  "payload.title \<lparr>payload.title = Some ''x'', payload.description = None, payload.completed = None\<rparr> = Some ''x''
   \<and> app (POST_todos \<lparr>payload.title = Some ''x'', payload.description = None, payload.completed = None\<rparr>) [\<lparr>id_pk = 1, title = PStr ''a'', description = PNone, completed = PBool False\<rparr>, \<lparr>id_pk = 5, title = PStr ''e'', description = PNone, completed = PBool True\<rparr>] = (Inr (Todo \<lparr>id_pk = 6, title = PStr ''x'', description = PNone, completed = PBool False\<rparr>), [\<lparr>id_pk = 1, title = PStr ''a'', description = PNone, completed = PBool False\<rparr>, \<lparr>id_pk = 5, title = PStr ''e'', description = PNone, completed = PBool True\<rparr>, \<lparr>id_pk = 6, title = PStr ''x'', description = PNone, completed = PBool False\<rparr>])
   \<and> id_pk \<lparr>id_pk = 6, title = PStr ''x'', description = PNone, completed = PBool False\<rparr> \<notin> id_pk ` set [\<lparr>id_pk = 1, title = PStr ''a'', description = PNone, completed = PBool False\<rparr>, \<lparr>id_pk = 5, title = PStr ''e'', description = PNone, completed = PBool True\<rparr>]
   \<and> primary_key [\<lparr>id_pk = 1, title = PStr ''a'', description = PNone, completed = PBool False\<rparr>, \<lparr>id_pk = 5, title = PStr ''e'', description = PNone, completed = PBool True\<rparr>, \<lparr>id_pk = 6, title = PStr ''x'', description = PNone, completed = PBool False\<rparr>]"
  using create_todo_id_fresh [of "\<lparr>payload.title = Some ''x'', payload.description = None, payload.completed = None\<rparr>" "''x''" "[\<lparr>id_pk = 1, title = PStr ''a'', description = PNone, completed = PBool False\<rparr>, \<lparr>id_pk = 5, title = PStr ''e'', description = PNone, completed = PBool True\<rparr>]"]
  by (simp add: app_def parse_obj_def create_todo_row next_rowid_def primary_key_def Let_def)

text \<open>
  The claim C6 as it is written fails: from the empty table, create a row, delete it,
  create another row. Both rows were given the id 1.
\<close>

theorem create_todo_id_reused:
  "created_ids (fst (serve [POST_todos \<lparr>payload.title = Some ''a'', payload.description = None, payload.completed = None\<rparr>, DELETE_todo 1, POST_todos \<lparr>payload.title = Some ''b'', payload.description = None, payload.completed = None\<rparr>] [])) = [1, 1]
   \<and> \<not> distinct (created_ids (fst (serve [POST_todos \<lparr>payload.title = Some ''a'', payload.description = None, payload.completed = None\<rparr>, DELETE_todo 1, POST_todos \<lparr>payload.title = Some ''b'', payload.description = None, payload.completed = None\<rparr>] [])))"
  by (simp add: app_def parse_obj_def create_todo_row delete_todo_find next_rowid_def Let_def)

text \<open>
  C7. Starting from the empty table, after any sequence of requests, \<^verbatim>\<open>GET /todos/\<close>
  returns exactly N - M rows, where N is the number of POST requests that returned a
  row and M the number of DELETE requests that succeeded (and M is at most N).
\<close>

theorem get_todos_count:
  assumes "serve rqs [] = (log, db)"
  shows "length (fst (get_todos db))
           = length (filter is_created log) - length (filter is_deleted log)
       \<and> length (filter is_deleted log) \<le> length (filter is_created log)"
proof -
  have "primary_key []" by (simp add: primary_key_def)
  from serve_count [OF this assms]
  have "length db + length (filter is_deleted log) = length (filter is_created log)"
    by simp
  then show ?thesis
    unfolding get_todos_def fst_conv by arith
qed

theorem get_todos_count_witness:
  "serve [POST_todos \<lparr>payload.title = Some ''a'', payload.description = None, payload.completed = None\<rparr>, POST_todos \<lparr>payload.title = Some ''b'', payload.description = None, payload.completed = None\<rparr>, DELETE_todo 1, GET_todo 1, DELETE_todo 9] []
     = ([(POST_todos \<lparr>payload.title = Some ''a'', payload.description = None, payload.completed = None\<rparr>, Inr (Todo \<lparr>id_pk = 1, title = PStr ''a'', description = PNone, completed = PBool False\<rparr>)),
         (POST_todos \<lparr>payload.title = Some ''b'', payload.description = None, payload.completed = None\<rparr>, Inr (Todo \<lparr>id_pk = 2, title = PStr ''b'', description = PNone, completed = PBool False\<rparr>)),
         (DELETE_todo 1, Inr (Object [(''message'', ''To-Do deleted successfully'')])),
         (GET_todo 1, Inl (HTTPException 404 ''To-Do not found'')),
         (DELETE_todo 9, Inl (HTTPException 404 ''To-Do not found''))],
        [\<lparr>id_pk = 2, title = PStr ''b'', description = PNone, completed = PBool False\<rparr>])
   \<and> length (fst (get_todos [\<lparr>id_pk = 2, title = PStr ''b'', description = PNone, completed = PBool False\<rparr>])) = 2 - 1"
  using get_todos_count
    [of "[POST_todos \<lparr>payload.title = Some ''a'', payload.description = None, payload.completed = None\<rparr>, POST_todos \<lparr>payload.title = Some ''b'', payload.description = None, payload.completed = None\<rparr>, DELETE_todo 1, GET_todo 1, DELETE_todo 9]"
        "[(POST_todos \<lparr>payload.title = Some ''a'', payload.description = None, payload.completed = None\<rparr>, Inr (Todo \<lparr>id_pk = 1, title = PStr ''a'', description = PNone, completed = PBool False\<rparr>)),
          (POST_todos \<lparr>payload.title = Some ''b'', payload.description = None, payload.completed = None\<rparr>, Inr (Todo \<lparr>id_pk = 2, title = PStr ''b'', description = PNone, completed = PBool False\<rparr>)),
          (DELETE_todo 1, Inr (Object [(''message'', ''To-Do deleted successfully'')])),
          (GET_todo 1, Inl (HTTPException 404 ''To-Do not found'')),
          (DELETE_todo 9, Inl (HTTPException 404 ''To-Do not found''))]"
        "[\<lparr>id_pk = 2, title = PStr ''b'', description = PNone, completed = PBool False\<rparr>]"]
  by (simp add: app_def parse_obj_def create_todo_row delete_todo_find get_todo_find
                next_rowid_def int64_def Let_def)

text \<open>
  C8. No request changes the id of a stored row. After \<^verbatim>\<open>PUT /todos/{id}\<close> the table
  has the same rows in the same places with the same ids, and every row of another id
  is unchanged altogether, so only title, description and completed of the targeted
  row can differ. A POST leaves the stored rows as they are and appends one; after a
  DELETE the rows that remain are rows of the table before, unchanged; a GET changes
  nothing.
\<close>

theorem id_pk_never_changes:
  "let db' = snd (app rq db)
   in case rq of
        PUT_todo todo_id body \<Rightarrow>
          list_all2 (\<lambda>x y. id_pk y = id_pk x \<and> (id_pk x \<noteq> todo_id \<longrightarrow> y = x)) db db'
      | POST_todos body \<Rightarrow> prefix db db'
      | DELETE_todo todo_id \<Rightarrow> subseq db' db
      | _ \<Rightarrow> db' = db"
proof (cases rq)
  case (POST_todos body)
  then show ?thesis
    by (cases "parse_obj body") (simp_all add: app_def create_todo_def Let_def)
next
  case GET_todos
  then show ?thesis by (simp add: app_def get_todos_def)
next
  case (GET_todo todo_id)
  then show ?thesis by (simp add: app_def get_todo_find split: option.split)
next
  case (PUT_todo todo_id body)
  show ?thesis
  proof (cases "parse_obj body")
    case (Inl e)
    with PUT_todo show ?thesis by (simp add: app_def list_all2_same)
  next
    case (Inr u)
    show ?thesis
    proof (cases "find (\<lambda>x. id_pk x = todo_id) db")
      case None
      with PUT_todo Inr show ?thesis
        by (simp add: app_def update_todo_find list_all2_same)
    next
      case (Some todo)
      have i: "id_pk (setattrs (dict u) todo) = todo_id"
        using find_some_member [OF Some] by (simp add: id_pk_setattrs_dict)
      have "snd (app rq db)
              = map (\<lambda>x. if id_pk x = todo_id then setattrs (dict u) todo else x) db"
        using PUT_todo Inr by (simp add: app_def update_todo_found [OF Some])
      then show ?thesis
        using PUT_todo i by (simp add: list_all2_map2 list_all2_same)
    qed
  qed
next
  case (DELETE_todo todo_id)
  then show ?thesis
    by (simp add: app_def delete_todo_find split: option.split)
qed

theorem id_pk_never_changes_witness:
  "snd (app (PUT_todo 2 \<lparr>payload.title = Some ''c'', payload.description = Some ''d'', payload.completed = Some True\<rparr>) [\<lparr>id_pk = 1, title = PStr ''a'', description = PNone, completed = PBool False\<rparr>, \<lparr>id_pk = 2, title = PStr ''b'', description = PNone, completed = PBool False\<rparr>]) = [\<lparr>id_pk = 1, title = PStr ''a'', description = PNone, completed = PBool False\<rparr>, \<lparr>id_pk = 2, title = PStr ''c'', description = PStr ''d'', completed = PBool True\<rparr>]
   \<and> list_all2 (\<lambda>x y. id_pk y = id_pk x \<and> (id_pk x \<noteq> 2 \<longrightarrow> y = x)) [\<lparr>id_pk = 1, title = PStr ''a'', description = PNone, completed = PBool False\<rparr>, \<lparr>id_pk = 2, title = PStr ''b'', description = PNone, completed = PBool False\<rparr>] [\<lparr>id_pk = 1, title = PStr ''a'', description = PNone, completed = PBool False\<rparr>, \<lparr>id_pk = 2, title = PStr ''c'', description = PStr ''d'', completed = PBool True\<rparr>]"
  using id_pk_never_changes [of "PUT_todo 2 \<lparr>payload.title = Some ''c'', payload.description = Some ''d'', payload.completed = Some True\<rparr>" "[\<lparr>id_pk = 1, title = PStr ''a'', description = PNone, completed = PBool False\<rparr>, \<lparr>id_pk = 2, title = PStr ''b'', description = PNone, completed = PBool False\<rparr>]"]
  by (simp add: app_def parse_obj_def update_todo_find setattrs_dict Let_def)

text \<open>
  C9. Every stored row has a title that is a string, not null, in every table reached
  from the empty table by any sequence of requests; and every single request, a
  Create and an Update among them, keeps that property of the table.
\<close>

theorem title_never_null:
  "title_not_null (snd (serve rqs []))
 \<and> (title_not_null db \<longrightarrow> title_not_null (snd (app rq db)))"
  using serve_title_not_null [of "[]" rqs] app_title_not_null [of db rq]
  by (simp add: title_not_null_def)

theorem title_never_null_witness:
  "title_not_null [\<lparr>id_pk = 1, title = PStr ''a'', description = PNone, completed = PBool False\<rparr>, \<lparr>id_pk = 2, title = PStr ''b'', description = PNone, completed = PBool False\<rparr>]
   \<and> snd (app (PUT_todo 2 \<lparr>payload.title = Some ''c'', payload.description = Some ''d'', payload.completed = Some True\<rparr>) [\<lparr>id_pk = 1, title = PStr ''a'', description = PNone, completed = PBool False\<rparr>, \<lparr>id_pk = 2, title = PStr ''b'', description = PNone, completed = PBool False\<rparr>]) = [\<lparr>id_pk = 1, title = PStr ''a'', description = PNone, completed = PBool False\<rparr>, \<lparr>id_pk = 2, title = PStr ''c'', description = PStr ''d'', completed = PBool True\<rparr>]
   \<and> title_not_null [\<lparr>id_pk = 1, title = PStr ''a'', description = PNone, completed = PBool False\<rparr>, \<lparr>id_pk = 2, title = PStr ''c'', description = PStr ''d'', completed = PBool True\<rparr>]
   \<and> snd (serve [POST_todos \<lparr>payload.title = Some ''a'', payload.description = None, payload.completed = None\<rparr>, POST_todos \<lparr>payload.title = Some ''b'', payload.description = None, payload.completed = None\<rparr>] []) = [\<lparr>id_pk = 1, title = PStr ''a'', description = PNone, completed = PBool False\<rparr>, \<lparr>id_pk = 2, title = PStr ''b'', description = PNone, completed = PBool False\<rparr>]"
  using title_never_null [of "[POST_todos \<lparr>payload.title = Some ''a'', payload.description = None, payload.completed = None\<rparr>, POST_todos \<lparr>payload.title = Some ''b'', payload.description = None, payload.completed = None\<rparr>]" "[\<lparr>id_pk = 1, title = PStr ''a'', description = PNone, completed = PBool False\<rparr>, \<lparr>id_pk = 2, title = PStr ''b'', description = PNone, completed = PBool False\<rparr>]" "PUT_todo 2 \<lparr>payload.title = Some ''c'', payload.description = Some ''d'', payload.completed = Some True\<rparr>"]
  by (simp add: title_not_null_def app_def parse_obj_def update_todo_find create_todo_row
                setattrs_dict next_rowid_def Let_def)

text \<open>
  C10. \<^verbatim>\<open>GET /todos/\<close> and \<^verbatim>\<open>GET /todos/{id}\<close> leave the table as it was, for every
  table and every id, stored or not.
\<close>

theorem reads_leave_table_unchanged:
  "snd (get_todos db) = db \<and> snd (get_todo todo_id db) = db
   \<and> snd (app GET_todos db) = db \<and> snd (app (GET_todo todo_id) db) = db"
  by (simp add: get_todos_def get_todo_find app_def split: option.split)

theorem reads_leave_table_unchanged_witness:
  "get_todos [\<lparr>id_pk = 1, title = PStr ''a'', description = PNone, completed = PBool False\<rparr>, \<lparr>id_pk = 2, title = PStr ''b'', description = PNone, completed = PBool False\<rparr>] = ([\<lparr>id_pk = 1, title = PStr ''a'', description = PNone, completed = PBool False\<rparr>, \<lparr>id_pk = 2, title = PStr ''b'', description = PNone, completed = PBool False\<rparr>], [\<lparr>id_pk = 1, title = PStr ''a'', description = PNone, completed = PBool False\<rparr>, \<lparr>id_pk = 2, title = PStr ''b'', description = PNone, completed = PBool False\<rparr>])
   \<and> snd (get_todo 2 [\<lparr>id_pk = 1, title = PStr ''a'', description = PNone, completed = PBool False\<rparr>, \<lparr>id_pk = 2, title = PStr ''b'', description = PNone, completed = PBool False\<rparr>]) = [\<lparr>id_pk = 1, title = PStr ''a'', description = PNone, completed = PBool False\<rparr>, \<lparr>id_pk = 2, title = PStr ''b'', description = PNone, completed = PBool False\<rparr>]
   \<and> snd (get_todo 3 [\<lparr>id_pk = 1, title = PStr ''a'', description = PNone, completed = PBool False\<rparr>, \<lparr>id_pk = 2, title = PStr ''b'', description = PNone, completed = PBool False\<rparr>]) = [\<lparr>id_pk = 1, title = PStr ''a'', description = PNone, completed = PBool False\<rparr>, \<lparr>id_pk = 2, title = PStr ''b'', description = PNone, completed = PBool False\<rparr>]"
  using reads_leave_table_unchanged [of "[\<lparr>id_pk = 1, title = PStr ''a'', description = PNone, completed = PBool False\<rparr>, \<lparr>id_pk = 2, title = PStr ''b'', description = PNone, completed = PBool False\<rparr>]" 2]
        reads_leave_table_unchanged [of "[\<lparr>id_pk = 1, title = PStr ''a'', description = PNone, completed = PBool False\<rparr>, \<lparr>id_pk = 2, title = PStr ''b'', description = PNone, completed = PBool False\<rparr>]" 3]
  by (simp add: get_todos_def)

end
